theory Spec2Isabelle
  imports Main
begin

section \<open>rpk transform project: the language flag\<close>

text \<open>
  \<^verbatim>\<open>src/go/rpk/pkg/cli/transform/project/project.go\<close>.
  \<^verbatim>\<open>WasmLang\<close> is a Go string type; a Go string is a sequence of bytes, as a
  \<^typ>\<open>string\<close> is here.
\<close>

type_synonym WasmLang = string

definition WasmLangTinygo :: WasmLang where
  "WasmLangTinygo = ''tinygo''"

definition AllWasmLangs :: "string list" where
  "AllWasmLangs = [''tinygo'']"

text \<open>
  The error built by \<^verbatim>\<open>fmt.Errorf("unknown language: %q", str)\<close>: it carries the
  argument as it was given, not its lowercase form.
\<close>

datatype go_error = Errorf_unknown_language string

text \<open>
  The \<^verbatim>\<open>for _, s := range AllWasmLangs\<close> loop of \<^verbatim>\<open>Set\<close>, by recursion on
  the slice that is left. The result is the receiver's value after the call and the
  returned error (\<open>None\<close> is Go's \<^verbatim>\<open>nil\<close>).
\<close>

fun WasmLang_Set_range :: "string list \<Rightarrow> string \<Rightarrow> string \<Rightarrow> WasmLang \<Rightarrow> WasmLang \<times> go_error option" where
  "WasmLang_Set_range [] lower str l = (l, Some (Errorf_unknown_language str))"
| "WasmLang_Set_range (s # rest) lower str l =
     (if lower = s then (s, None) else WasmLang_Set_range rest lower str l)"

text \<open>
  \<^verbatim>\<open>func (l *WasmLang) Set(str string) error\<close>. \<^verbatim>\<open>strings.ToLower\<close> belongs to
  Go's standard library (it lowers every Unicode letter, not only ASCII ones), so it
  is an argument of the model; \<open>l\<close> is the value the receiver points to.
\<close>

definition WasmLang_Set :: "(string \<Rightarrow> string) \<Rightarrow> WasmLang \<Rightarrow> string \<Rightarrow> WasmLang \<times> go_error option" where
  "WasmLang_Set ToLower l str = WasmLang_Set_range AllWasmLangs (ToLower str) str l"

text \<open>
  What \<^verbatim>\<open>strings.ToLower\<close> does to a string of ASCII bytes: \<^verbatim>\<open>'A'..'Z'\<close> move to
  \<^verbatim>\<open>'a'..'z'\<close>, every other byte stays. Used to run \<open>WasmLang_Set\<close> on concrete
  ASCII inputs.
\<close>

definition ascii_ToLower :: "string \<Rightarrow> string" where
  "ascii_ToLower str =
     map (\<lambda>c. let n = (of_char c :: nat) in if 65 \<le> n \<and> n \<le> 90 then char_of (n + 32) else c) str"


section \<open>Kafka server: the JoinGroup handler\<close>

text \<open>
  \<^verbatim>\<open>src/v/kafka/server/handlers/join_group.cc\<close>, \<^verbatim>\<open>join_group_handler::handle\<close>.
\<close>

type_synonym bytes = string
type_synonym group_id = string
type_synonym member_id = string
type_synonym api_version = int

text \<open>
  Modelled from the spec: the enumeration \<^verbatim>\<open>kafka::error_code\<close> is declared in a
  header outside these sources; these are the codes of the spec's error taxonomy (section 7), in
  the source's spelling, and \<open>none\<close> for success.
\<close>

datatype error_code =
    none
  | unknown_member_id
  | illegal_generation
  | inconsistent_group_protocol
  | rebalance_in_progress
  | group_authorization_failed
  | fenced_instance_id
  | not_coordinator
  | coordinator_load_in_progress

text \<open>
  Modelled from the spec: the request's \<^verbatim>\<open>data\<close> structure is declared outside
  these sources; these are the JoinGroup input fields of the spec (section 6). The
  handler reads \<open>group_id\<close> only.
\<close>

record join_group_request_data =
  group_id :: group_id
  member_id :: member_id
  group_instance_id :: "string option"
  session_timeout :: int
  rebalance_timeout :: int
  protocol_type :: string
  protocols :: "(string \<times> bytes) list"

record join_group_request =
  data :: join_group_request_data
  version :: api_version
  client_id :: "string option"
  client_host :: string

text \<open>
  The two ways the source builds a response: \<^verbatim>\<open>join_group_response(error_code)\<close> in
  the handler, and whatever the group manager answers (the output fields of the spec,
  section 6: error code, generation, protocol name, leader, member id, member list).
\<close>

datatype join_group_response =
    join_group_response error_code
  | join_group_result error_code int string member_id member_id "(member_id \<times> bytes) list"

fun response_error_code :: "join_group_response \<Rightarrow> error_code" where
  "response_error_code (join_group_response e) = e"
| "response_error_code (join_group_result e _ _ _ _ _) = e"

record request_header =
  header_version :: api_version
  header_client_id :: "string option"

text \<open>
  The request context: the header, the bytes the reader holds, the peer's host as
  \<^verbatim>\<open>fmt::format("{}", ctx.connection()->client_host())\<close> prints it, and the state
  behind \<^verbatim>\<open>ctx.groups()\<close>.
\<close>

record 'gm request_context =
  header :: request_header
  reader :: bytes
  connection_client_host :: string
  groups :: 'gm

text \<open>
  What the handler calls and does not define. \<open>decode\<close> answers \<open>None\<close> where
  \<^verbatim>\<open>request.decode\<close> throws; \<open>acl_operation_read\<close> stands for
  \<^verbatim>\<open>security::acl_operation::read\<close> (the enumeration is declared elsewhere, so the type
  of operations is a parameter); \<open>authorized\<close> is \<^verbatim>\<open>ctx.authorized\<close>; \<open>join_group\<close>
  is \<^verbatim>\<open>ctx.groups().join_group\<close>, a transformer of the group manager's state that
  gives the response its \<^verbatim>\<open>result\<close> future resolves to.
\<close>

record ('op, 'gm) collaborators =
  decode :: "bytes \<Rightarrow> api_version \<Rightarrow> join_group_request_data option"
  acl_operation_read :: 'op
  authorized :: "'op \<Rightarrow> group_id \<Rightarrow> bool"
  join_group :: "join_group_request \<Rightarrow> 'gm \<Rightarrow> join_group_response \<times> 'gm"

text \<open>The calls the handler makes on its surroundings, in the order it makes them.\<close>

datatype 'op effect =
    Log_request request_header join_group_request
  | Authorized 'op group_id
  | Join_group join_group_request
  | Respond join_group_response

text \<open>
  \<^verbatim>\<open>process_result_stages\<close>: \<open>single_stage\<close> is the early return, \<open>two_stages\<close> the
  constructor call of the last line (the dispatched stage of the group manager and the
  response).
\<close>

datatype process_result_stages =
    single_stage join_group_response
  | two_stages join_group_response

record ('op, 'gm) handled =
  stages :: process_result_stages
  groups_after :: 'gm
  effects :: "'op effect list"

text \<open>Lines 26 to 34: the request as the handler has it before the authorization check.\<close>

definition decoded_request :: "'gm request_context \<Rightarrow> join_group_request_data \<Rightarrow> join_group_request" where
  "decoded_request ctx d =
     \<lparr> data = d,
       version = header_version (header ctx),
       client_id = (case header_client_id (header ctx) of Some c \<Rightarrow> Some c | None \<Rightarrow> None),
       client_host = connection_client_host ctx \<rparr>"

text \<open>
  \<^verbatim>\<open>join_group_handler::handle\<close>. \<open>None\<close>: \<^verbatim>\<open>decode\<close> threw and nothing else
  happened.
\<close>

definition handle :: "('op, 'gm) collaborators \<Rightarrow> 'gm request_context \<Rightarrow> ('op, 'gm) handled option" where
  "handle env ctx =
     (case decode env (reader ctx) (header_version (header ctx)) of
        None \<Rightarrow> None
      | Some d \<Rightarrow>
          let request = decoded_request ctx d;
              before = [Log_request (header ctx) request,
                        Authorized (acl_operation_read env) (group_id (data request))]
          in if \<not> authorized env (acl_operation_read env) (group_id (data request))
             then Some \<lparr> stages = single_stage (join_group_response group_authorization_failed),
                         groups_after = groups ctx,
                         effects = before @ [Respond (join_group_response group_authorization_failed)] \<rparr>
             else (case join_group env request (groups ctx) of
                     (response, gm) \<Rightarrow>
                       Some \<lparr> stages = two_stages response,
                              groups_after = gm,
                              effects = before @ [Join_group request, Respond response] \<rparr>))"

text \<open>The authorization checks among a list of effects.\<close>

fun authorization_checks :: "'op effect list \<Rightarrow> ('op \<times> group_id) list" where
  "authorization_checks [] = []"
| "authorization_checks (Authorized op g # es) = (op, g) # authorization_checks es"
| "authorization_checks (_ # es) = authorization_checks es"

text \<open>The calls of the group manager's \<^verbatim>\<open>join_group\<close> among a list of effects.\<close>

fun join_group_calls :: "'op effect list \<Rightarrow> join_group_request list" where
  "join_group_calls [] = []"
| "join_group_calls (Join_group r # es) = r # join_group_calls es"
| "join_group_calls (_ # es) = join_group_calls es"


section \<open>The consumer group behind \<^verbatim>\<open>ctx.groups()\<close>\<close>

text \<open>
  The handler hands an authorized request to the group manager. The group state machine
  itself (the group, its members, the rebalance) is outside these sources; what
  follows is the group as the spec describes it (sections 3, 4.1 and 4.2), transition
  by transition. How a request is admitted (allocation of member ids, static
  membership and fencing, protocol negotiation), timers and persistence are outside
  this model: a \<open>Join\<close> below is an admitted Join, and the closing of the join barrier,
  the expiry of a session and the end of the grace period are events.
\<close>

text \<open>
  Modelled from the spec: the states of a group (section 3); the group's code is
  missing.
\<close>

datatype group_state = Empty | PreparingRebalance | CompletingRebalance | Stable | Dead

text \<open>
  Modelled from the spec: what a Member Session's \<open>pending_response\<close> can hold, an
  outstanding Join or an outstanding Sync (section 3); the member's code is missing.
\<close>

datatype parked = Join_parked | Sync_parked

text \<open>
  Modelled from the spec: the Member Session (section 3), with the fields the
  transitions read or write; the member's code is missing. The member id is the key
  under which the group holds the session.
\<close>

record member_session =
  supported_protocols :: "(string \<times> bytes) list"
  assignment :: bytes
  last_heartbeat_at :: nat
  pending_response :: "parked option"

text \<open>
  Modelled from the spec: the Group (section 3); the group's code is missing.
  \<open>members\<close> maps member ids to sessions and is kept in the order in which the Joins
  of the current rebalance arrived, which is what "earliest joiner" refers to; the
  session of a new joiner is held there too, with its id in \<open>pending_member_ids\<close>
  until the barrier closes. \<open>synced\<close> is not a field of the spec: it lists the members
  whose Sync for the current generation has arrived, which the transition
  to \<open>Stable\<close> asks about.
\<close>

record group =
  state :: group_state
  generation :: int
  leader_id :: "member_id option"
  members :: "(member_id \<times> member_session) list"
  pending_member_ids :: "member_id list"
  synced :: "member_id list"

text \<open>
  Modelled from the spec: the SyncGroup input (section 6: generation, member id, and
  the assignment map a leader sends); the request's declaration is missing.
\<close>

record sync_group_request =
  sync_generation :: int
  sync_member_id :: member_id
  assignments :: "(member_id \<times> bytes) list"

text \<open>
  Modelled from the spec: the SyncGroup output (section 6: error code and the
  member's assignment bytes), with the member whose pending Sync it answers.
\<close>

type_synonym sync_group_response = "member_id \<times> error_code \<times> bytes"

text \<open>
  Modelled from the spec: what can happen to a group (sections 4.1 and 4.2): an
  admitted Join (member, its protocols, the time), a Leave, the expiry of a member's
  session, the closing of the join barrier, a Sync and the time, a Heartbeat (member,
  generation, the time), the end of an empty group's grace period, and deletion.
\<close>

datatype event =
    Join member_id "(string \<times> bytes) list" nat
  | Leave member_id
  | Expire member_id
  | Barrier_close
  | Sync sync_group_request nat
  | Heartbeat member_id int nat
  | Grace_period_elapsed
  | Delete

text \<open>Modelled from the spec: "a member present in the group" (section 7); the group's code is missing.\<close>

definition is_member :: "group \<Rightarrow> member_id \<Rightarrow> bool" where
  "is_member g m \<longleftrightarrow> m \<in> fst ` set (members g)"

text \<open>Modelled from the spec: a member whose \<open>pending_response\<close> holds a request of the given kind (section 3).\<close>

definition has_parked :: "parked \<Rightarrow> member_id \<times> member_session \<Rightarrow> bool" where
  "has_parked p e \<longleftrightarrow> pending_response (snd e) = Some p"

text \<open>Modelled from the spec: resolving a member's pending response empties it (sections 3 and 9).\<close>

definition unpark :: "member_id \<times> member_session \<Rightarrow> member_id \<times> member_session" where
  "unpark e = (fst e, (snd e)\<lparr>pending_response := None\<rparr>)"

text \<open>
  Modelled from the spec: \<open>last_heartbeat_at\<close> is updated by any successful heartbeat,
  join or sync of the member (section 3); the member's code is missing.
\<close>

definition refresh :: "nat \<Rightarrow> member_id \<Rightarrow> member_id \<times> member_session \<Rightarrow> member_id \<times> member_session" where
  "refresh now m e = (if fst e = m then (fst e, (snd e)\<lparr>last_heartbeat_at := now\<rparr>) else e)"

text \<open>
  Modelled from the spec: Join handling (section 4.1); the group's join code is
  missing. A Join takes the group to \<open>PreparingRebalance\<close> from \<open>Empty\<close>, \<open>Stable\<close>
  and \<open>CompletingRebalance\<close> (there the barrier restarts and the Syncs that were
  waiting are given up); the session is created for an unknown id, whose id goes to
  \<open>pending_member_ids\<close>, and updated for a known one; the response is parked. A member
  whose Join is parked already keeps its place in the order of arrival.
\<close>

definition join :: "group \<Rightarrow> member_id \<Rightarrow> (string \<times> bytes) list \<Rightarrow> nat \<Rightarrow> group" where
  "join g m ps now =
     (let restart = (state g \<noteq> PreparingRebalance);
          old = (if restart then map unpark (members g) else members g);
          s = (case map_of old m of
                 None \<Rightarrow> \<lparr> supported_protocols = ps, assignment = [], last_heartbeat_at = now,
                            pending_response = Some Join_parked \<rparr>
               | Some s0 \<Rightarrow> s0\<lparr> supported_protocols := ps, last_heartbeat_at := now,
                                pending_response := Some Join_parked \<rparr>);
          already = (\<exists>e \<in> set old. fst e = m \<and> has_parked Join_parked e)
      in g\<lparr> state := PreparingRebalance,
            members := (if already then map (\<lambda>e. if fst e = m then (m, s) else e) old
                        else filter (\<lambda>e. fst e \<noteq> m) old @ [(m, s)]),
            pending_member_ids :=
              (if map_of old m = None then pending_member_ids g @ [m] else pending_member_ids g),
            synced := (if restart then [] else synced g) \<rparr>)"

text \<open>
  Modelled from the spec: the transition to \<open>Stable\<close> is due when the leader's Sync
  has been recorded and every member has synced (section 4.1; a member declared
  missing has been removed by then).
\<close>

definition assignment_complete :: "member_id option \<Rightarrow> member_id list \<Rightarrow> (member_id \<times> member_session) list \<Rightarrow> bool" where
  "assignment_complete leader done ms \<longleftrightarrow>
     (case leader of None \<Rightarrow> False | Some l \<Rightarrow> l \<in> set done) \<and> (\<forall>e \<in> set ms. fst e \<in> set done)"

text \<open>
  Modelled from the spec: Leave handling, which expiry shares (section 4.1); the
  group's code is missing. The member is removed; a \<open>Stable\<close> group goes to
  \<open>PreparingRebalance\<close>, or to \<open>Empty\<close> when the last member left; a group in
  \<open>CompletingRebalance\<close> whose remaining members have all synced after the leader
  becomes \<open>Stable\<close>. The spec names no other change of state on a Leave.
\<close>

definition leave :: "group \<Rightarrow> member_id \<Rightarrow> group" where
  "leave g m =
     (let rest = filter (\<lambda>e. fst e \<noteq> m) (members g);
          done = filter (\<lambda>x. x \<noteq> m) (synced g);
          g' = g\<lparr> members := rest,
                  pending_member_ids := filter (\<lambda>x. x \<noteq> m) (pending_member_ids g),
                  synced := done \<rparr>
      in if state g = Stable \<and> is_member g m
         then (if rest = [] then g'\<lparr> state := Empty, leader_id := None \<rparr>
               else g'\<lparr> state := PreparingRebalance \<rparr>)
         else if state g = CompletingRebalance \<and> rest \<noteq> [] \<and> assignment_complete (leader_id g) done rest
         then g'\<lparr> state := Stable \<rparr>
         else g')"

text \<open>
  Modelled from the spec: the closing of the join barrier (section 4.2, "On close");
  the rebalance code is missing. The generation goes up by one, the members whose
  Join is not parked are dropped, the leader is the earliest joiner still present, the
  parked Joins are resolved, and the group is in \<open>CompletingRebalance\<close> when a member
  remains and \<open>Empty\<close> when none does. A new generation starts with no assignment.
\<close>

definition close_barrier :: "group \<Rightarrow> group" where
  "close_barrier g =
     (let joined = filter (has_parked Join_parked) (members g);
          remaining = map (\<lambda>e. (fst e, (snd e)\<lparr>assignment := [], pending_response := None\<rparr>)) joined
      in g\<lparr> generation := generation g + 1,
            leader_id := (case remaining of [] \<Rightarrow> None | e # _ \<Rightarrow> Some (fst e)),
            members := remaining,
            pending_member_ids := [],
            synced := [],
            state := (if remaining = [] then Empty else CompletingRebalance) \<rparr>)"

text \<open>
  Modelled from the spec: the validation of the leader's assignment map, whose key
  set must be the member set exactly (section 4.1); the sync code is missing.
\<close>

definition key_set_matches :: "(member_id \<times> bytes) list \<Rightarrow> (member_id \<times> member_session) list \<Rightarrow> bool" where
  "key_set_matches as ms \<longleftrightarrow> set (map fst as) = set (map fst ms)"

text \<open>
  Modelled from the spec: the bytes the assignment map gives a member, taken as they
  are (section 4.3).
\<close>

definition own_bytes :: "(member_id \<times> bytes) list \<Rightarrow> member_id \<Rightarrow> bytes" where
  "own_bytes as m = (case map_of as m of Some b \<Rightarrow> b | None \<Rightarrow> [])"

text \<open>
  Modelled from the spec: the leader's Sync (section 4.1); the sync code is missing.
  A map whose key set is the member set is stored, every member's bytes as given, and
  the leader and every member whose Sync is waiting are answered with their own
  bytes; the group is \<open>Stable\<close> once every member has synced. Any other map forces a
  new rebalance: the group goes back to \<open>PreparingRebalance\<close> and those waiting are
  told that a rebalance is in progress.
\<close>

definition leader_sync :: "group \<Rightarrow> sync_group_request \<Rightarrow> nat \<Rightarrow> group \<times> sync_group_response list" where
  "leader_sync g r now =
     (let m = sync_member_id r;
          waiting = filter (\<lambda>e. fst e = m \<or> has_parked Sync_parked e) (members g)
      in if key_set_matches (assignments r) (members g)
         then
           (let done = m # synced g
            in (g\<lparr> members := map (\<lambda>e. refresh now m
                                          (fst e, (snd e)\<lparr> assignment := own_bytes (assignments r) (fst e),
                                                        pending_response := None \<rparr>)) (members g),
                   synced := done,
                   state := (if assignment_complete (leader_id g) done (members g)
                             then Stable else CompletingRebalance) \<rparr>,
                map (\<lambda>e. (fst e, none, own_bytes (assignments r) (fst e))) waiting))
         else (g\<lparr> members := map unpark (members g), synced := [], state := PreparingRebalance \<rparr>,
               map (\<lambda>e. (fst e, rebalance_in_progress, [])) waiting))"

text \<open>
  Modelled from the spec: the Sync of a member that is not the leader (section 4.1);
  the sync code is missing. It waits until the leader's assignment has been recorded,
  and is answered with the member's bytes at once when it has been.
\<close>

definition member_sync :: "group \<Rightarrow> sync_group_request \<Rightarrow> nat \<Rightarrow> group \<times> sync_group_response list" where
  "member_sync g r now =
     (let m = sync_member_id r; done = m # synced g in
      if (case leader_id g of None \<Rightarrow> False | Some l \<Rightarrow> l \<in> set (synced g))
      then (g\<lparr> synced := done,
               members := map (refresh now m) (members g),
               state := (if assignment_complete (leader_id g) done (members g)
                         then Stable else CompletingRebalance) \<rparr>,
            [(m, none, (case map_of (members g) m of Some s \<Rightarrow> assignment s | None \<Rightarrow> []))])
      else (g\<lparr> synced := done,
               members := map (\<lambda>e. if fst e = m
                                   then (m, (snd e)\<lparr>last_heartbeat_at := now,
                                                     pending_response := Some Sync_parked\<rparr>)
                                   else e)
                            (members g) \<rparr>,
            []))"

text \<open>
  Modelled from the spec: Sync handling while the group is in \<open>CompletingRebalance\<close>
  (section 4.1: valid only for a member and for the current generation); the sync code
  is missing. The answer to a Sync in any other state is not modelled.
\<close>

definition sync_group :: "group \<Rightarrow> sync_group_request \<Rightarrow> nat \<Rightarrow> group \<times> sync_group_response list" where
  "sync_group g r now =
     (let m = sync_member_id r in
      if sync_generation r \<noteq> generation g then (g, [(m, illegal_generation, [])])
      else if \<not> is_member g m then (g, [(m, unknown_member_id, [])])
      else if leader_id g = Some m then leader_sync g r now
      else member_sync g r now)"

text \<open>
  Modelled from the spec: what a Heartbeat does to the group (section 4.1): in
  \<open>Stable\<close> and for the current generation it refreshes the member's
  \<open>last_heartbeat_at\<close>, and it changes nothing otherwise; the heartbeat code is
  missing, and the error code that answers a refused Heartbeat is not modelled.
\<close>

definition heartbeat :: "group \<Rightarrow> member_id \<Rightarrow> int \<Rightarrow> nat \<Rightarrow> group" where
  "heartbeat g m gen now =
     (if state g = Stable \<and> gen = generation g
      then g\<lparr> members := map (refresh now m) (members g) \<rparr>
      else g)"

text \<open>
  Modelled from the spec: one transition of the group (section 4.1, "States and
  transitions"); the group's code is missing. A dead group stays as it is; the barrier
  closes in \<open>PreparingRebalance\<close> only; a Sync acts in \<open>CompletingRebalance\<close> only; a
  group that stayed empty past its grace period, or is deleted, is \<open>Dead\<close> and has lost
  its members.
\<close>

fun step :: "group \<Rightarrow> event \<Rightarrow> group" where
  "step g (Join m ps now) = (if state g = Dead then g else join g m ps now)"
| "step g (Leave m) = (if state g = Dead then g else leave g m)"
| "step g (Expire m) = (if state g = Dead then g else leave g m)"
| "step g Barrier_close = (if state g = PreparingRebalance then close_barrier g else g)"
| "step g (Sync r now) = (if state g = CompletingRebalance then fst (sync_group g r now) else g)"
| "step g (Heartbeat m gen now) = (if state g = Dead then g else heartbeat g m gen now)"
| "step g Grace_period_elapsed =
     (if state g = Empty then g\<lparr> state := Dead, members := [], leader_id := None \<rparr> else g)"
| "step g Delete = g\<lparr> state := Dead, members := [], leader_id := None \<rparr>"

text \<open>
  Modelled from the spec: a group as the Group Table creates it, empty and with no
  leader (section 3, "absent when Empty"); the table's code is missing.
\<close>

definition new_group :: group where
  "new_group = \<lparr> state = Empty, generation = 0, leader_id = None, members = [],
                 pending_member_ids = [], synced = [] \<rparr>"


section \<open>Concrete settings\<close>

text \<open>
  A concrete setting to run the handler in: operations are named by strings, the group
  manager's state is the list of the requests it has been given, the decoder takes the
  whole payload as the group id and throws on an empty one, and the authorizer grants
  every operation but \<open>read\<close> on the group \<open>payments\<close>.
\<close>

definition example_collaborators :: "(string, join_group_request list) collaborators" where
  "example_collaborators =
     \<lparr> decode = (\<lambda>b v. if b = [] then None
                       else Some \<lparr> group_id = b, member_id = [], group_instance_id = None,
                                   session_timeout = 10000, rebalance_timeout = 30000,
                                   protocol_type = ''consumer'', protocols = [] \<rparr>),
       acl_operation_read = ''read'',
       authorized = (\<lambda>op g. \<not> (op = ''read'' \<and> g = ''payments'')),
       join_group = (\<lambda>r gm. (join_group_result none 1 ''range'' ''m1'' ''m1'' [], gm @ [r])) \<rparr>"

definition example_context :: "bytes \<Rightarrow> join_group_request list request_context" where
  "example_context payload =
     \<lparr> header = \<lparr> header_version = 5, header_client_id = Some ''client'' \<rparr>,
       reader = payload,
       connection_client_host = ''10.0.0.1'',
       groups = [] \<rparr>"


text \<open>
  A group of two members, \<open>A\<close> its leader, in \<open>CompletingRebalance\<close> at generation
  2, where \<open>B\<close>'s Sync is waiting; and a Sync of \<open>A\<close> with a given generation and
  assignment map.
\<close>

definition example_session :: "parked option \<Rightarrow> member_session" where
  "example_session p =
     \<lparr> supported_protocols = [(''range'', [])], assignment = [], last_heartbeat_at = 0,
       pending_response = p \<rparr>"

definition example_group :: group where
  "example_group =
     \<lparr> state = CompletingRebalance, generation = 2, leader_id = Some ''A'',
       members = [(''A'', example_session None), (''B'', example_session (Some Sync_parked))],
       pending_member_ids = [], synced = [''B''] \<rparr>"

definition example_sync :: "int \<Rightarrow> (member_id \<times> bytes) list \<Rightarrow> sync_group_request" where
  "example_sync gen as = \<lparr> sync_generation = gen, sync_member_id = ''A'', assignments = as \<rparr>"


text \<open>
  The group after \<open>A\<close> and \<open>B\<close> have joined a new group, the barrier has closed and
  \<open>A\<close>, the leader, has left: it is in \<open>CompletingRebalance\<close> at generation 1 with
  \<open>B\<close> as its only member and \<open>A\<close> still named as leader.
\<close>

definition example_left_group :: group where
  "example_left_group =
     foldl step new_group [Join ''A'' [] 0, Join ''B'' [] 1, Barrier_close, Leave ''A'']"


section \<open>Properties of the language flag\<close>

lemma WasmLang_Set_range_eq:
  "WasmLang_Set_range langs lower str l =
     (if lower \<in> set langs then (lower, None) else (l, Some (Errorf_unknown_language str)))"
  by (induction langs) auto

text \<open>
  C10. \<^verbatim>\<open>WasmLang.Set(s)\<close> returns no error exactly when the lowercase form of \<open>s\<close>
  is an element of \<^verbatim>\<open>AllWasmLangs\<close>, whose only element is \<^verbatim>\<open>"tinygo"\<close>; then the
  receiver holds that lowercase name, and otherwise the call returns the error and the
  receiver keeps its value.
\<close>

theorem WasmLang_Set_iff:
  "(snd (WasmLang_Set ToLower l s) = None \<longleftrightarrow> ToLower s \<in> set AllWasmLangs)
   \<and> WasmLang_Set ToLower l s =
       (if ToLower s \<in> set AllWasmLangs then (ToLower s, None)
        else (l, Some (Errorf_unknown_language s)))
   \<and> set AllWasmLangs = {WasmLangTinygo}"
  by (simp add: WasmLang_Set_def WasmLang_Set_range_eq AllWasmLangs_def WasmLangTinygo_def)

theorem WasmLang_Set_iff_witness:
  "WasmLang_Set ascii_ToLower ''rust'' ''TinyGO'' = (''tinygo'', None)
   \<and> WasmLang_Set ascii_ToLower ''tinygo'' ''Rust'' = (''tinygo'', Some (Errorf_unknown_language ''Rust''))"
proof -
  have low1: "ascii_ToLower ''TinyGO'' = ''tinygo''" by code_simp
  have low2: "ascii_ToLower ''Rust'' = ''rust''" by code_simp
  show ?thesis
    using WasmLang_Set_iff [of ascii_ToLower "''rust''" "''TinyGO''"]
      WasmLang_Set_iff [of ascii_ToLower "''tinygo''" "''Rust''"]
    by (simp add: low1 low2 AllWasmLangs_def WasmLangTinygo_def)
qed


section \<open>Properties of the JoinGroup handler\<close>

text \<open>
  C1. When the authorization check of a decoded JoinGroup request fails, the handler
  returns the single-stage response with error code \<open>group_authorization_failed\<close>,
  the group manager's \<^verbatim>\<open>join_group\<close> is not called and the state behind
  \<^verbatim>\<open>ctx.groups()\<close> is the one the request came with.
\<close>

theorem handle_unauthorized:
  assumes "decode env (reader ctx) (header_version (header ctx)) = Some d"
      and "\<not> authorized env (acl_operation_read env) (group_id d)"
  shows "\<exists>h. handle env ctx = Some h
           \<and> stages h = single_stage (join_group_response group_authorization_failed)
           \<and> response_error_code (join_group_response group_authorization_failed) = group_authorization_failed
           \<and> groups_after h = groups ctx
           \<and> join_group_calls (effects h) = []
           \<and> effects h = [Log_request (header ctx) (decoded_request ctx d),
                           Authorized (acl_operation_read env) (group_id d),
                           Respond (join_group_response group_authorization_failed)]"
  using assms by (simp add: handle_def decoded_request_def)

theorem handle_unauthorized_witness:
  "decode example_collaborators (reader (example_context ''payments''))
       (header_version (header (example_context ''payments''))) \<noteq> None
   \<and> \<not> authorized example_collaborators (acl_operation_read example_collaborators) ''payments''
   \<and> (\<exists>h. handle example_collaborators (example_context ''payments'') = Some h
           \<and> stages h = single_stage (join_group_response group_authorization_failed)
           \<and> groups_after h = []
           \<and> join_group_calls (effects h) = [])"
proof -
  let ?d = "\<lparr> group_id = ''payments'', member_id = [], group_instance_id = None,
              session_timeout = 10000, rebalance_timeout = 30000,
              protocol_type = ''consumer'', protocols = [] \<rparr>"
  have dec: "decode example_collaborators (reader (example_context ''payments''))
               (header_version (header (example_context ''payments''))) = Some ?d"
    by (simp add: example_collaborators_def example_context_def)
  have deny: "\<not> authorized example_collaborators (acl_operation_read example_collaborators) (group_id ?d)"
    by (simp add: example_collaborators_def)
  have grp: "groups (example_context ''payments'') = []"
    by (simp add: example_context_def)
  from handle_unauthorized [OF dec deny] dec deny grp show ?thesis
    by auto
qed

text \<open>
  C9. The JoinGroup handler makes one authorization check, for the read operation on
  the group id of the decoded request, and makes it before anything is handed to the
  group manager: the handler's calls are the log entry, that check and then, when it
  is granted, \<^verbatim>\<open>join_group\<close> on the state the request came with and the response,
  and, when it is refused, the refusal alone with the state untouched. No other
  question is put to the authorizer: with another authorizer in its place the handler
  does the same exactly when the two give the same answer to read on that group id.
  Where the request does not decode, no check is made at all.
\<close>

theorem handle_checks_read:
  "(case decode env (reader ctx) (header_version (header ctx)) of
      None \<Rightarrow> handle env ctx = None
    | Some d \<Rightarrow>
        (\<exists>h. handle env ctx = Some h
           \<and> effects h =
               [Log_request (header ctx) (decoded_request ctx d),
                Authorized (acl_operation_read env) (group_id d)]
               @ (if authorized env (acl_operation_read env) (group_id d)
                  then [Join_group (decoded_request ctx d),
                        Respond (fst (join_group env (decoded_request ctx d) (groups ctx)))]
                  else [Respond (join_group_response group_authorization_failed)])
           \<and> authorization_checks (effects h) = [(acl_operation_read env, group_id d)]
           \<and> stages h =
               (if authorized env (acl_operation_read env) (group_id d)
                then two_stages (fst (join_group env (decoded_request ctx d) (groups ctx)))
                else single_stage (join_group_response group_authorization_failed))
           \<and> groups_after h =
               (if authorized env (acl_operation_read env) (group_id d)
                then snd (join_group env (decoded_request ctx d) (groups ctx))
                else groups ctx))
        \<and> (\<forall>a. handle (env\<lparr>authorized := a\<rparr>) ctx = handle env ctx
                 \<longleftrightarrow> a (acl_operation_read env) (group_id d)
                       = authorized env (acl_operation_read env) (group_id d)))"
proof (cases "decode env (reader ctx) (header_version (header ctx))")
  case None
  then show ?thesis by (simp add: handle_def)
next
  case (Some d)
  obtain response gm where jg: "join_group env (decoded_request ctx d) (groups ctx) = (response, gm)"
    by (cases "join_group env (decoded_request ctx d) (groups ctx)")
  have req: "group_id (data (decoded_request ctx d)) = group_id d"
    by (simp add: decoded_request_def)
  have run: "\<And>a. handle (env\<lparr>authorized := a\<rparr>) ctx =
      Some (if a (acl_operation_read env) (group_id d)
            then \<lparr> stages = two_stages response, groups_after = gm,
                   effects = [Log_request (header ctx) (decoded_request ctx d),
                              Authorized (acl_operation_read env) (group_id d),
                              Join_group (decoded_request ctx d), Respond response] \<rparr>
            else \<lparr> stages = single_stage (join_group_response group_authorization_failed),
                   groups_after = groups ctx,
                   effects = [Log_request (header ctx) (decoded_request ctx d),
                              Authorized (acl_operation_read env) (group_id d),
                              Respond (join_group_response group_authorization_failed)] \<rparr>)"
    using Some jg by (simp add: handle_def Let_def req)
  have self: "env\<lparr>authorized := authorized env\<rparr> = env" by simp
  have run0: "handle env ctx =
      Some (if authorized env (acl_operation_read env) (group_id d)
            then \<lparr> stages = two_stages response, groups_after = gm,
                   effects = [Log_request (header ctx) (decoded_request ctx d),
                              Authorized (acl_operation_read env) (group_id d),
                              Join_group (decoded_request ctx d), Respond response] \<rparr>
            else \<lparr> stages = single_stage (join_group_response group_authorization_failed),
                   groups_after = groups ctx,
                   effects = [Log_request (header ctx) (decoded_request ctx d),
                              Authorized (acl_operation_read env) (group_id d),
                              Respond (join_group_response group_authorization_failed)] \<rparr>)"
    using run [of "authorized env"] by (simp only: self)
  have first: "\<exists>h. handle env ctx = Some h
           \<and> effects h =
               [Log_request (header ctx) (decoded_request ctx d),
                Authorized (acl_operation_read env) (group_id d)]
               @ (if authorized env (acl_operation_read env) (group_id d)
                  then [Join_group (decoded_request ctx d),
                        Respond (fst (join_group env (decoded_request ctx d) (groups ctx)))]
                  else [Respond (join_group_response group_authorization_failed)])
           \<and> authorization_checks (effects h) = [(acl_operation_read env, group_id d)]
           \<and> stages h =
               (if authorized env (acl_operation_read env) (group_id d)
                then two_stages (fst (join_group env (decoded_request ctx d) (groups ctx)))
                else single_stage (join_group_response group_authorization_failed))
           \<and> groups_after h =
               (if authorized env (acl_operation_read env) (group_id d)
                then snd (join_group env (decoded_request ctx d) (groups ctx))
                else groups ctx)"
    by (simp add: run0 jg)
  have second: "\<forall>a. handle (env\<lparr>authorized := a\<rparr>) ctx = handle env ctx
                 \<longleftrightarrow> a (acl_operation_read env) (group_id d)
                       = authorized env (acl_operation_read env) (group_id d)"
    by (auto simp: run run0)
  from first second Some show ?thesis by simp
qed

theorem handle_checks_read_witness:
  "handle example_collaborators (example_context ''orders'')
     = Some \<lparr> stages = two_stages (join_group_result none 1 ''range'' ''m1'' ''m1'' []),
              groups_after = [decoded_request (example_context ''orders'')
                                \<lparr> group_id = ''orders'', member_id = [], group_instance_id = None,
                                  session_timeout = 10000, rebalance_timeout = 30000,
                                  protocol_type = ''consumer'', protocols = [] \<rparr>],
              effects = [Log_request (header (example_context ''orders''))
                           (decoded_request (example_context ''orders'')
                                \<lparr> group_id = ''orders'', member_id = [], group_instance_id = None,
                                  session_timeout = 10000, rebalance_timeout = 30000,
                                  protocol_type = ''consumer'', protocols = [] \<rparr>),
                         Authorized ''read'' ''orders'',
                         Join_group (decoded_request (example_context ''orders'')
                                \<lparr> group_id = ''orders'', member_id = [], group_instance_id = None,
                                  session_timeout = 10000, rebalance_timeout = 30000,
                                  protocol_type = ''consumer'', protocols = [] \<rparr>),
                         Respond (join_group_result none 1 ''range'' ''m1'' ''m1'' [])] \<rparr>
   \<and> (\<exists>h. handle example_collaborators (example_context ''payments'') = Some h
         \<and> authorization_checks (effects h) = [(''read'', ''payments'')]
         \<and> join_group_calls (effects h) = []
         \<and> stages h = single_stage (join_group_response group_authorization_failed)
         \<and> groups_after h = [])
   \<and> handle (example_collaborators\<lparr>authorized := \<lambda>op g. op \<noteq> ''read''\<rparr>) (example_context ''orders'')
       \<noteq> handle example_collaborators (example_context ''orders'')
   \<and> handle (example_collaborators\<lparr>authorized := \<lambda>op g. op = ''read'' \<and> g = ''orders''\<rparr>)
         (example_context ''orders'')
       = handle example_collaborators (example_context ''orders'')
   \<and> handle example_collaborators (example_context []) = None"
proof -
  let ?d1 = "\<lparr> group_id = ''orders'', member_id = [], group_instance_id = None,
               session_timeout = 10000, rebalance_timeout = 30000,
               protocol_type = ''consumer'', protocols = [] \<rparr>"
  let ?d2 = "\<lparr> group_id = ''payments'', member_id = [], group_instance_id = None,
               session_timeout = 10000, rebalance_timeout = 30000,
               protocol_type = ''consumer'', protocols = [] \<rparr>"
  have dec1: "decode example_collaborators (reader (example_context ''orders''))
                (header_version (header (example_context ''orders''))) = Some ?d1"
    by (simp add: example_collaborators_def example_context_def)
  have dec2: "decode example_collaborators (reader (example_context ''payments''))
                (header_version (header (example_context ''payments''))) = Some ?d2"
    by (simp add: example_collaborators_def example_context_def)
  have dec3: "decode example_collaborators (reader (example_context []))
                (header_version (header (example_context []))) = None"
    by (simp add: example_collaborators_def example_context_def)
  have rd: "acl_operation_read example_collaborators = ''read''"
    by (simp add: example_collaborators_def)
  have ok: "authorized example_collaborators ''read'' ''orders''"
    and no: "\<not> authorized example_collaborators ''read'' ''payments''"
    by (simp_all add: example_collaborators_def)
  have jg: "join_group example_collaborators (decoded_request (example_context ''orders'') ?d1)
              (groups (example_context ''orders''))
            = (join_group_result none 1 ''range'' ''m1'' ''m1'' [],
               [decoded_request (example_context ''orders'') ?d1])"
    by (simp add: example_collaborators_def example_context_def)
  have grp: "groups (example_context ''payments'') = []"
    by (simp add: example_context_def)
  have t1: "(\<exists>h. handle example_collaborators (example_context ''orders'') = Some h
           \<and> effects h =
               [Log_request (header (example_context ''orders'')) (decoded_request (example_context ''orders'') ?d1),
                Authorized ''read'' ''orders'',
                Join_group (decoded_request (example_context ''orders'') ?d1),
                Respond (join_group_result none 1 ''range'' ''m1'' ''m1'' [])]
           \<and> authorization_checks (effects h) = [(''read'', ''orders'')]
           \<and> stages h = two_stages (join_group_result none 1 ''range'' ''m1'' ''m1'' [])
           \<and> groups_after h = [decoded_request (example_context ''orders'') ?d1])
        \<and> (\<forall>a. handle (example_collaborators\<lparr>authorized := a\<rparr>) (example_context ''orders'')
                   = handle example_collaborators (example_context ''orders'')
                 \<longleftrightarrow> a ''read'' ''orders'' = True)"
    using handle_checks_read [of example_collaborators "example_context ''orders''"]
    by (simp add: dec1 rd ok jg)
  have t2: "\<exists>h. handle example_collaborators (example_context ''payments'') = Some h
           \<and> effects h =
               [Log_request (header (example_context ''payments'')) (decoded_request (example_context ''payments'') ?d2),
                Authorized ''read'' ''payments'',
                Respond (join_group_response group_authorization_failed)]
           \<and> authorization_checks (effects h) = [(''read'', ''payments'')]
           \<and> stages h = single_stage (join_group_response group_authorization_failed)
           \<and> groups_after h = []"
    using handle_checks_read [of example_collaborators "example_context ''payments''"]
    by (simp add: dec2 rd no grp)
  have c5: "handle example_collaborators (example_context []) = None"
    using handle_checks_read [of example_collaborators "example_context []"]
    by (simp add: dec3)
  from t1 obtain h where h: "handle example_collaborators (example_context ''orders'') = Some h"
      "effects h =
               [Log_request (header (example_context ''orders'')) (decoded_request (example_context ''orders'') ?d1),
                Authorized ''read'' ''orders'',
                Join_group (decoded_request (example_context ''orders'') ?d1),
                Respond (join_group_result none 1 ''range'' ''m1'' ''m1'' [])]"
      "stages h = two_stages (join_group_result none 1 ''range'' ''m1'' ''m1'' [])"
      "groups_after h = [decoded_request (example_context ''orders'') ?d1]"
    by blast
  have c1: "handle example_collaborators (example_context ''orders'')
     = Some \<lparr> stages = two_stages (join_group_result none 1 ''range'' ''m1'' ''m1'' []),
              groups_after = [decoded_request (example_context ''orders'') ?d1],
              effects = [Log_request (header (example_context ''orders''))
                           (decoded_request (example_context ''orders'') ?d1),
                         Authorized ''read'' ''orders'',
                         Join_group (decoded_request (example_context ''orders'') ?d1),
                         Respond (join_group_result none 1 ''range'' ''m1'' ''m1'' [])] \<rparr>"
    using h by (cases h) simp
  from t2 obtain h2 where h2: "handle example_collaborators (example_context ''payments'') = Some h2"
      "effects h2 =
               [Log_request (header (example_context ''payments'')) (decoded_request (example_context ''payments'') ?d2),
                Authorized ''read'' ''payments'',
                Respond (join_group_response group_authorization_failed)]"
      "authorization_checks (effects h2) = [(''read'', ''payments'')]"
      "stages h2 = single_stage (join_group_response group_authorization_failed)"
      "groups_after h2 = []"
    by blast
  have calls: "join_group_calls (effects h2) = []"
    by (simp add: h2(2))
  have c2: "\<exists>h. handle example_collaborators (example_context ''payments'') = Some h
         \<and> authorization_checks (effects h) = [(''read'', ''payments'')]
         \<and> join_group_calls (effects h) = []
         \<and> stages h = single_stage (join_group_response group_authorization_failed)
         \<and> groups_after h = []"
    using h2 calls by blast
  from t1 have every: "\<forall>a. handle (example_collaborators\<lparr>authorized := a\<rparr>) (example_context ''orders'')
                   = handle example_collaborators (example_context ''orders'')
                 \<longleftrightarrow> a ''read'' ''orders'' = True"
    by (rule conjunct2)
  have c3: "handle (example_collaborators\<lparr>authorized := \<lambda>op g. op \<noteq> ''read''\<rparr>) (example_context ''orders'')
       \<noteq> handle example_collaborators (example_context ''orders'')"
    using spec [OF every, of "\<lambda>op g. op \<noteq> ''read''"] by simp
  have c4: "handle (example_collaborators\<lparr>authorized := \<lambda>op g. op = ''read'' \<and> g = ''orders''\<rparr>)
         (example_context ''orders'')
       = handle example_collaborators (example_context ''orders'')"
    using spec [OF every, of "\<lambda>op g. op = ''read'' \<and> g = ''orders''"] by simp
  from c1 c2 c3 c4 c5 show ?thesis by (intro conjI)
qed

section \<open>Properties of the group\<close>

lemma refresh_keeps [simp]:
  "fst (refresh now m e) = fst e"
  "assignment (snd (refresh now m e)) = assignment (snd e)"
  "pending_response (snd (refresh now m e)) = pending_response (snd e)"
  by (simp_all add: refresh_def)

lemma generation_sync_group: "generation (fst (sync_group g r now)) = generation g"
  by (simp add: sync_group_def leader_sync_def member_sync_def Let_def)

lemma generation_join: "generation (join g m ps now) = generation g"
  by (simp add: join_def Let_def)

lemma generation_leave: "generation (leave g m) = generation g"
  by (simp add: leave_def Let_def)

lemma generation_heartbeat: "generation (heartbeat g m gen now) = generation g"
  by (simp add: heartbeat_def)

lemma generation_close_barrier: "generation (close_barrier g) = generation g + 1"
  by (simp add: close_barrier_def Let_def)

lemma generation_step:
  "generation (step g e) =
     (if e = Barrier_close \<and> state g = PreparingRebalance then generation g + 1 else generation g)"
  by (cases e)
    (simp_all add: generation_sync_group generation_join generation_leave generation_heartbeat
       generation_close_barrier)

lemma generation_run: "generation g \<le> generation (foldl step g es)"
proof (induction es arbitrary: g)
  case Nil
  show ?case by simp
next
  case (Cons e es)
  have "generation g \<le> generation (step g e)"
    by (simp add: generation_step)
  also have "\<dots> \<le> generation (foldl step (step g e) es)"
    by (rule Cons.IH)
  finally show ?case by simp
qed

lemma state_join: "state (join g m ps now) = PreparingRebalance"
  by (simp add: join_def Let_def)

lemma state_leave: "state (leave g m) = CompletingRebalance \<Longrightarrow> state g = CompletingRebalance"
  by (simp add: leave_def Let_def split: if_splits)

lemma state_heartbeat: "state (heartbeat g m gen now) = state g"
  by (simp add: heartbeat_def)

lemma enters_completing:
  assumes "state g \<noteq> CompletingRebalance" and "state (step g e) = CompletingRebalance"
  shows "e = Barrier_close \<and> state g = PreparingRebalance"
  using assms
  by (cases e) (auto simp: state_join state_heartbeat dest: state_leave split: if_splits)

text \<open>
  C2. From one state of a group to the next the generation never decreases, so it
  never does along the group's life; it changes only when the join barrier closes,
  and then by one; and a group enters \<open>CompletingRebalance\<close> only by such a close, with
  the generation one higher than before.
\<close>

theorem generation_never_decreases:
  "generation g \<le> generation (step g e)
   \<and> generation g \<le> generation (foldl step g es)
   \<and> generation (step g e) =
       (if e = Barrier_close \<and> state g = PreparingRebalance then generation g + 1 else generation g)
   \<and> (state g \<noteq> CompletingRebalance \<and> state (step g e) = CompletingRebalance
        \<longrightarrow> e = Barrier_close \<and> generation (step g e) = generation g + 1)"
  using enters_completing [of g e] by (simp add: generation_step generation_run)

theorem generation_never_decreases_witness:
  "state (step new_group (Join ''A'' [] 0)) \<noteq> CompletingRebalance
   \<and> state (step (step new_group (Join ''A'' [] 0)) Barrier_close) = CompletingRebalance
   \<and> generation (step new_group (Join ''A'' [] 0)) = 0
   \<and> generation (step (step new_group (Join ''A'' [] 0)) Barrier_close) = 1"
proof -
  have s1: "state (step new_group (Join ''A'' [] 0)) = PreparingRebalance"
    by (simp add: new_group_def join_def Let_def)
  have s2: "state (step (step new_group (Join ''A'' [] 0)) Barrier_close) = CompletingRebalance"
    by (simp add: new_group_def join_def close_barrier_def has_parked_def unpark_def Let_def)
  have g1: "generation (step new_group (Join ''A'' [] 0)) = 0"
    by (simp add: new_group_def join_def Let_def)
  from generation_never_decreases [of "step new_group (Join ''A'' [] 0)" Barrier_close "[]"] s1 s2 g1
  show ?thesis by simp
qed

lemma key_set_own_bytes:
  assumes "fst ` set as = fst ` set ms" and "e \<in> set ms"
  shows "map_of as (fst e) = Some (own_bytes as (fst e))"
proof -
  from assms have "fst e \<in> fst ` set as"
    by auto
  then obtain b where "map_of as (fst e) = Some b"
    by (metis domD dom_map_of_conv_image_fst)
  then show ?thesis by (simp add: own_bytes_def)
qed

lemma sync_group_stale:
  "sync_generation r \<noteq> generation g \<Longrightarrow>
     sync_group g r now = (g, [(sync_member_id r, illegal_generation, [])])"
  by (simp add: sync_group_def)

lemma sync_group_unknown:
  "sync_generation r = generation g \<Longrightarrow> sync_member_id r \<notin> fst ` set (members g) \<Longrightarrow>
     sync_group g r now = (g, [(sync_member_id r, unknown_member_id, [])])"
  by (simp add: sync_group_def is_member_def)

lemma sync_group_leader:
  "sync_generation r = generation g \<Longrightarrow> sync_member_id r \<in> fst ` set (members g) \<Longrightarrow>
   leader_id g = Some (sync_member_id r) \<Longrightarrow> sync_group g r now = leader_sync g r now"
  by (simp add: sync_group_def is_member_def)

lemma leader_sync_refused:
  assumes "fst ` set (assignments r) \<noteq> fst ` set (members g)"
  shows "leader_sync g r now =
           (g\<lparr> members := map unpark (members g), synced := [], state := PreparingRebalance \<rparr>,
            map (\<lambda>e. (fst e, rebalance_in_progress, []))
              (filter (\<lambda>e. fst e = sync_member_id r \<or> pending_response (snd e) = Some Sync_parked)
                 (members g)))"
  using assms by (simp add: leader_sync_def key_set_matches_def has_parked_def Let_def)

lemma leader_sync_accepted:
  assumes "fst ` set (assignments r) = fst ` set (members g)"
  shows "members (fst (leader_sync g r now)) =
           map (\<lambda>e. refresh now (sync_member_id r)
                  (fst e, (snd e)\<lparr> assignment := own_bytes (assignments r) (fst e),
                                   pending_response := None \<rparr>)) (members g)"
    and "snd (leader_sync g r now) =
           map (\<lambda>e. (fst e, none, own_bytes (assignments r) (fst e)))
             (filter (\<lambda>e. fst e = sync_member_id r \<or> pending_response (snd e) = Some Sync_parked)
                (members g))"
    and "generation (fst (leader_sync g r now)) = generation g"
    and "leader_id (fst (leader_sync g r now)) = leader_id g"
  using assms by (simp_all add: leader_sync_def key_set_matches_def has_parked_def Let_def)

text \<open>
  C7. Spec 4.1 takes a Sync as valid only for a member and for the current
  generation, and the claim is about such a Sync of the leader while the group is in
  \<open>CompletingRebalance\<close>: it is accepted exactly when the key set of its map is the
  member set. A map with an extra or a missing id sends the group back to
  \<open>PreparingRebalance\<close>, with the same generation and members, and the leader and every
  member whose Sync was waiting are told that a rebalance is in progress, nobody else.
  On acceptance the members are the same, each holds the bytes the map gives it,
  whatever they are, no Sync is left waiting, and the leader and every member whose
  Sync was waiting are answered with their own bytes, nobody else. Outside the
  validity condition the group does not change: a leader's Sync with another
  generation is answered \<open>illegal_generation\<close>, one of a leader that is no member any
  more \<open>unknown_member_id\<close>, whatever the key set.
\<close>

theorem leader_sync_accepts_iff:
  assumes "state g = CompletingRebalance"
      and "leader_id g = Some (sync_member_id r)"
  shows "(sync_generation r \<noteq> generation g
            \<longrightarrow> sync_group g r now = (g, [(sync_member_id r, illegal_generation, [])]))
       \<and> (sync_generation r = generation g \<and> sync_member_id r \<notin> fst ` set (members g)
            \<longrightarrow> sync_group g r now = (g, [(sync_member_id r, unknown_member_id, [])]))
       \<and> (sync_generation r = generation g \<and> sync_member_id r \<in> fst ` set (members g)
            \<longrightarrow>
              ((\<exists>b. (sync_member_id r, none, b) \<in> set (snd (sync_group g r now)))
                 \<longleftrightarrow> fst ` set (assignments r) = fst ` set (members g))
            \<and> (fst ` set (assignments r) \<noteq> fst ` set (members g)
                 \<longrightarrow> state (fst (sync_group g r now)) = PreparingRebalance
                   \<and> generation (fst (sync_group g r now)) = generation g
                   \<and> map fst (members (fst (sync_group g r now))) = map fst (members g)
                   \<and> (\<forall>e \<in> set (members (fst (sync_group g r now))).
                         pending_response (snd e) = None)
                   \<and> (sync_member_id r, rebalance_in_progress, []) \<in> set (snd (sync_group g r now))
                   \<and> (\<forall>e \<in> set (members g). pending_response (snd e) = Some Sync_parked
                         \<longrightarrow> (fst e, rebalance_in_progress, []) \<in> set (snd (sync_group g r now)))
                   \<and> (\<forall>a \<in> set (snd (sync_group g r now)).
                         snd a = (rebalance_in_progress, [])
                         \<and> (fst a = sync_member_id r
                             \<or> (\<exists>s. (fst a, s) \<in> set (members g)
                                     \<and> pending_response s = Some Sync_parked))))
            \<and> (fst ` set (assignments r) = fst ` set (members g)
                 \<longrightarrow> state (fst (sync_group g r now)) \<noteq> PreparingRebalance
                   \<and> generation (fst (sync_group g r now)) = generation g
                   \<and> leader_id (fst (sync_group g r now)) = leader_id g
                   \<and> map fst (members (fst (sync_group g r now))) = map fst (members g)
                   \<and> (\<forall>e \<in> set (members (fst (sync_group g r now))).
                         map_of (assignments r) (fst e) = Some (assignment (snd e))
                         \<and> pending_response (snd e) = None)
                   \<and> (\<exists>b. map_of (assignments r) (sync_member_id r) = Some b
                         \<and> (sync_member_id r, none, b) \<in> set (snd (sync_group g r now)))
                   \<and> (\<forall>e \<in> set (members g). pending_response (snd e) = Some Sync_parked
                         \<longrightarrow> (\<exists>b. map_of (assignments r) (fst e) = Some b
                                 \<and> (fst e, none, b) \<in> set (snd (sync_group g r now))))
                   \<and> (\<forall>a \<in> set (snd (sync_group g r now)).
                         fst (snd a) = none
                         \<and> map_of (assignments r) (fst a) = Some (snd (snd a))
                         \<and> (fst a = sync_member_id r
                             \<or> (\<exists>s. (fst a, s) \<in> set (members g)
                                     \<and> pending_response s = Some Sync_parked)))))"
proof (intro conjI impI)
  assume "sync_generation r \<noteq> generation g"
  then show "sync_group g r now = (g, [(sync_member_id r, illegal_generation, [])])"
    by (rule sync_group_stale)
next
  assume "sync_generation r = generation g \<and> sync_member_id r \<notin> fst ` set (members g)"
  then show "sync_group g r now = (g, [(sync_member_id r, unknown_member_id, [])])"
    by (simp add: sync_group_unknown)
next
  assume valid: "sync_generation r = generation g \<and> sync_member_id r \<in> fst ` set (members g)"
  then have sg: "sync_group g r now = leader_sync g r now"
    using assms(2) by (simp add: sync_group_leader)
  from valid obtain s where mem: "(sync_member_id r, s) \<in> set (members g)"
    by auto
  show "(\<exists>b. (sync_member_id r, none, b) \<in> set (snd (sync_group g r now)))
          \<longleftrightarrow> fst ` set (assignments r) = fst ` set (members g)"
  proof (cases "fst ` set (assignments r) = fst ` set (members g)")
    case True
    have "(sync_member_id r, none, own_bytes (assignments r) (sync_member_id r))
            \<in> set (snd (leader_sync g r now))"
      using mem by (force simp: leader_sync_accepted(2) [OF True])
    with True show ?thesis unfolding sg by blast
  next
    case False
    then show ?thesis unfolding sg by (auto simp: leader_sync_refused)
  qed
next
  assume valid: "sync_generation r = generation g \<and> sync_member_id r \<in> fst ` set (members g)"
    and no: "fst ` set (assignments r) \<noteq> fst ` set (members g)"
  from valid have sg: "sync_group g r now = leader_sync g r now"
    using assms(2) by (simp add: sync_group_leader)
  from valid obtain s where mem: "(sync_member_id r, s) \<in> set (members g)"
    by auto
  note run = leader_sync_refused [OF no, of now]
  show "state (fst (sync_group g r now)) = PreparingRebalance"
    by (simp add: sg run)
  show "generation (fst (sync_group g r now)) = generation g"
    by (simp add: sg run)
  show "map fst (members (fst (sync_group g r now))) = map fst (members g)"
    by (simp add: sg run unpark_def comp_def)
  show "\<forall>e \<in> set (members (fst (sync_group g r now))). pending_response (snd e) = None"
    by (auto simp: sg run unpark_def)
  show "(sync_member_id r, rebalance_in_progress, []) \<in> set (snd (sync_group g r now))"
    using mem by (force simp: sg run)
  show "\<forall>e \<in> set (members g). pending_response (snd e) = Some Sync_parked
          \<longrightarrow> (fst e, rebalance_in_progress, []) \<in> set (snd (sync_group g r now))"
    by (force simp: sg run)
  show "\<forall>a \<in> set (snd (sync_group g r now)).
          snd a = (rebalance_in_progress, [])
          \<and> (fst a = sync_member_id r
              \<or> (\<exists>s. (fst a, s) \<in> set (members g) \<and> pending_response s = Some Sync_parked))"
    by (auto simp: sg run)
next
  assume valid: "sync_generation r = generation g \<and> sync_member_id r \<in> fst ` set (members g)"
    and yes: "fst ` set (assignments r) = fst ` set (members g)"
  from valid have sg: "sync_group g r now = leader_sync g r now"
    using assms(2) by (simp add: sync_group_leader)
  from valid obtain s where mem: "(sync_member_id r, s) \<in> set (members g)"
    by auto
  note run = leader_sync_accepted [OF yes, of now]
  have own: "\<And>e. e \<in> set (members g) \<Longrightarrow>
               map_of (assignments r) (fst e) = Some (own_bytes (assignments r) (fst e))"
    using yes by (rule key_set_own_bytes)
  show "state (fst (sync_group g r now)) \<noteq> PreparingRebalance"
    using yes by (simp add: sg leader_sync_def key_set_matches_def Let_def)
  show "generation (fst (sync_group g r now)) = generation g"
    by (simp add: sg run)
  show "leader_id (fst (sync_group g r now)) = leader_id g"
    by (simp add: sg run)
  show "map fst (members (fst (sync_group g r now))) = map fst (members g)"
    by (simp add: sg run comp_def)
  show "\<forall>e \<in> set (members (fst (sync_group g r now))).
          map_of (assignments r) (fst e) = Some (assignment (snd e))
          \<and> pending_response (snd e) = None"
    using own by (auto simp: sg run)
  show "\<exists>b. map_of (assignments r) (sync_member_id r) = Some b
          \<and> (sync_member_id r, none, b) \<in> set (snd (sync_group g r now))"
    using own [OF mem] mem by (force simp: sg run)
  show "\<forall>e \<in> set (members g). pending_response (snd e) = Some Sync_parked
          \<longrightarrow> (\<exists>b. map_of (assignments r) (fst e) = Some b
                  \<and> (fst e, none, b) \<in> set (snd (sync_group g r now)))"
    using own by (force simp: sg run)
  show "\<forall>a \<in> set (snd (sync_group g r now)).
          fst (snd a) = none
          \<and> map_of (assignments r) (fst a) = Some (snd (snd a))
          \<and> (fst a = sync_member_id r
              \<or> (\<exists>s. (fst a, s) \<in> set (members g) \<and> pending_response s = Some Sync_parked))"
    using own by (auto simp: sg run)
qed

theorem leader_sync_accepts_iff_witness:
  "sync_group example_group (example_sync 2 [(''A'', ''a-bytes''), (''B'', [])]) 7
     = (example_group \<lparr> members := [(''A'', (example_session None)\<lparr>assignment := ''a-bytes'',
                                                                    last_heartbeat_at := 7\<rparr>),
                                     (''B'', (example_session None)\<lparr>assignment := []\<rparr>)],
                        synced := [''A'', ''B''], state := Stable \<rparr>,
        [(''A'', none, ''a-bytes''), (''B'', none, [])])
   \<and> sync_group example_group (example_sync 2 [(''A'', ''a-bytes'')]) 7
     = (example_group \<lparr> members := [(''A'', example_session None), (''B'', example_session None)],
                        synced := [], state := PreparingRebalance \<rparr>,
        [(''A'', rebalance_in_progress, []), (''B'', rebalance_in_progress, [])])
   \<and> sync_group example_group (example_sync 2 [(''A'', ''a-bytes''), (''B'', ''b-bytes''), (''C'', [])]) 7
     = (example_group \<lparr> members := [(''A'', example_session None), (''B'', example_session None)],
                        synced := [], state := PreparingRebalance \<rparr>,
        [(''A'', rebalance_in_progress, []), (''B'', rebalance_in_progress, [])])
   \<and> sync_group example_group (example_sync 1 [(''A'', ''a-bytes''), (''B'', ''b-bytes'')]) 7
     = (example_group, [(''A'', illegal_generation, [])])
   \<and> sync_group example_group (example_sync 3 [(''A'', ''a-bytes''), (''B'', ''b-bytes'')]) 7
     = (example_group, [(''A'', illegal_generation, [])])
   \<and> state example_left_group = CompletingRebalance
   \<and> leader_id example_left_group = Some ''A''
   \<and> map fst (members example_left_group) = [''B'']
   \<and> sync_group example_left_group (example_sync 1 [(''B'', ''b-bytes'')]) 7
     = (example_left_group, [(''A'', unknown_member_id, [])])"
proof -
  let ?ok = "example_sync 2 [(''A'', ''a-bytes''), (''B'', [])]"
  let ?missing = "example_sync 2 [(''A'', ''a-bytes'')]"
  let ?extra = "example_sync 2 [(''A'', ''a-bytes''), (''B'', ''b-bytes''), (''C'', [])]"
  let ?old = "example_sync 1 [(''A'', ''a-bytes''), (''B'', ''b-bytes'')]"
  let ?new = "example_sync 3 [(''A'', ''a-bytes''), (''B'', ''b-bytes'')]"
  let ?left = "example_sync 1 [(''B'', ''b-bytes'')]"
  have st: "state example_group = CompletingRebalance"
    by (simp add: example_group_def)
  have ld: "\<And>gen as. leader_id example_group = Some (sync_member_id (example_sync gen as))"
    by (simp add: example_group_def example_sync_def)
  have gen: "generation example_group = 2"
    and mem: "fst ` set (members example_group) = {''A'', ''B''}"
    by (simp_all add: example_group_def)
  have req: "\<And>gen as. sync_generation (example_sync gen as) = gen"
      "\<And>gen as. sync_member_id (example_sync gen as) = ''A''"
      "\<And>gen as. assignments (example_sync gen as) = as"
    by (simp_all add: example_sync_def)
  have ok: "sync_group example_group ?ok 7
     = (example_group \<lparr> members := [(''A'', (example_session None)\<lparr>assignment := ''a-bytes'',
                                                                    last_heartbeat_at := 7\<rparr>),
                                     (''B'', (example_session None)\<lparr>assignment := []\<rparr>)],
                        synced := [''A'', ''B''], state := Stable \<rparr>,
        [(''A'', none, ''a-bytes''), (''B'', none, [])])"
    by (simp add: example_group_def example_sync_def example_session_def sync_group_def is_member_def
        leader_sync_def key_set_matches_def own_bytes_def has_parked_def assignment_complete_def
        refresh_def Let_def)
  have missing: "sync_group example_group ?missing 7
     = (example_group \<lparr> members := [(''A'', example_session None), (''B'', example_session None)],
                        synced := [], state := PreparingRebalance \<rparr>,
        [(''A'', rebalance_in_progress, []), (''B'', rebalance_in_progress, [])])"
    by (simp add: example_group_def example_sync_def example_session_def sync_group_def is_member_def
        leader_sync_def key_set_matches_def has_parked_def unpark_def Let_def)
  have extra: "sync_group example_group ?extra 7
     = (example_group \<lparr> members := [(''A'', example_session None), (''B'', example_session None)],
                        synced := [], state := PreparingRebalance \<rparr>,
        [(''A'', rebalance_in_progress, []), (''B'', rebalance_in_progress, [])])"
    by code_simp
  have left: "example_left_group =
      \<lparr> state = CompletingRebalance, generation = 1, leader_id = Some ''A'',
        members = [(''B'', \<lparr> supported_protocols = [], assignment = [], last_heartbeat_at = 1,
                            pending_response = None \<rparr>)],
        pending_member_ids = [], synced = [] \<rparr>"
    by code_simp
  have lst: "state example_left_group = CompletingRebalance"
    and lld: "leader_id example_left_group = Some (sync_member_id ?left)"
    and lgen: "sync_generation ?left = generation example_left_group"
    and lmem: "sync_member_id ?left \<notin> fst ` set (members example_left_group)"
    and lkeys: "map fst (members example_left_group) = [''B'']"
    by (simp_all add: left example_sync_def)
  from leader_sync_accepts_iff [OF st ld, of 1 "[(''A'', ''a-bytes''), (''B'', ''b-bytes'')]" 7]
  have old: "sync_group example_group ?old 7 = (example_group, [(''A'', illegal_generation, [])])"
    by (simp add: req gen)
  from leader_sync_accepts_iff [OF st ld, of 3 "[(''A'', ''a-bytes''), (''B'', ''b-bytes'')]" 7]
  have new: "sync_group example_group ?new 7 = (example_group, [(''A'', illegal_generation, [])])"
    by (simp add: req gen)
  from leader_sync_accepts_iff [OF lst lld, of 7] lgen lmem
  have gone: "sync_group example_left_group ?left 7 = (example_left_group, [(''A'', unknown_member_id, [])])"
    by (simp add: req)
  from leader_sync_accepts_iff [OF st ld, of 2 "[(''A'', ''a-bytes''), (''B'', [])]" 7]
  have acc: "\<exists>b. (''A'', none, b) \<in> set (snd (sync_group example_group ?ok 7))"
    by (simp add: req gen mem)
  from leader_sync_accepts_iff [OF st ld, of 2 "[(''A'', ''a-bytes'')]" 7]
  have rej: "state (fst (sync_group example_group ?missing 7)) = PreparingRebalance"
    by (simp add: req gen mem)
  from acc rej ok missing extra old new gone lst lld lkeys show ?thesis
    by (simp add: req)
qed

end
